theory Spec2Isabelle
  imports Main "HOL-Library.Word"
begin

unbundle bit_operations_syntax

section \<open>The MD5 digest\<close>

text \<open>
  \<^verbatim>\<open>crypto.createHash('md5').update(s).digest('hex')\<close>, from RFC 1321. A string is the list of
  the bytes of its UTF-8 encoding. Each of the four rounds is the table of its sixteen
  operations: the additive constant, the rotation, and the index of the message word.
\<close>

type_synonym byte = "8 word"
type_synonym w32 = "32 word"
type_synonym md5_state = "w32 \<times> w32 \<times> w32 \<times> w32"

definition md5_round1 :: "(w32 \<times> nat \<times> nat) list" where
  "md5_round1 =
    [(0xd76aa478, 7, 0), (0xe8c7b756, 12, 1), (0x242070db, 17, 2), (0xc1bdceee, 22, 3),
     (0xf57c0faf, 7, 4), (0x4787c62a, 12, 5), (0xa8304613, 17, 6), (0xfd469501, 22, 7),
     (0x698098d8, 7, 8), (0x8b44f7af, 12, 9), (0xffff5bb1, 17, 10), (0x895cd7be, 22, 11),
     (0x6b901122, 7, 12), (0xfd987193, 12, 13), (0xa679438e, 17, 14), (0x49b40821, 22, 15)]"

definition md5_round2 :: "(w32 \<times> nat \<times> nat) list" where
  "md5_round2 =
    [(0xf61e2562, 5, 1), (0xc040b340, 9, 6), (0x265e5a51, 14, 11), (0xe9b6c7aa, 20, 0),
     (0xd62f105d, 5, 5), (0x02441453, 9, 10), (0xd8a1e681, 14, 15), (0xe7d3fbc8, 20, 4),
     (0x21e1cde6, 5, 9), (0xc33707d6, 9, 14), (0xf4d50d87, 14, 3), (0x455a14ed, 20, 8),
     (0xa9e3e905, 5, 13), (0xfcefa3f8, 9, 2), (0x676f02d9, 14, 7), (0x8d2a4c8a, 20, 12)]"

definition md5_round3 :: "(w32 \<times> nat \<times> nat) list" where
  "md5_round3 =
    [(0xfffa3942, 4, 5), (0x8771f681, 11, 8), (0x6d9d6122, 16, 11), (0xfde5380c, 23, 14),
     (0xa4beea44, 4, 1), (0x4bdecfa9, 11, 4), (0xf6bb4b60, 16, 7), (0xbebfbc70, 23, 10),
     (0x289b7ec6, 4, 13), (0xeaa127fa, 11, 0), (0xd4ef3085, 16, 3), (0x04881d05, 23, 6),
     (0xd9d4d039, 4, 9), (0xe6db99e5, 11, 12), (0x1fa27cf8, 16, 15), (0xc4ac5665, 23, 2)]"

definition md5_round4 :: "(w32 \<times> nat \<times> nat) list" where
  "md5_round4 =
    [(0xf4292244, 6, 0), (0x432aff97, 10, 7), (0xab9423a7, 15, 14), (0xfc93a039, 21, 5),
     (0x655b59c3, 6, 12), (0x8f0ccc92, 10, 3), (0xffeff47d, 15, 10), (0x85845dd1, 21, 1),
     (0x6fa87e4f, 6, 8), (0xfe2ce6e0, 10, 15), (0xa3014314, 15, 6), (0x4e0811a1, 21, 13),
     (0xf7537e82, 6, 4), (0xbd3af235, 10, 11), (0x2ad7d2bb, 15, 2), (0xeb86d391, 21, 9)]"

definition md5_F :: "w32 \<Rightarrow> w32 \<Rightarrow> w32 \<Rightarrow> w32" where
  "md5_F x y z = (x AND y) OR (NOT x AND z)"

definition md5_G :: "w32 \<Rightarrow> w32 \<Rightarrow> w32 \<Rightarrow> w32" where
  "md5_G x y z = (x AND z) OR (y AND NOT z)"

definition md5_H :: "w32 \<Rightarrow> w32 \<Rightarrow> w32 \<Rightarrow> w32" where
  "md5_H x y z = x XOR y XOR z"

definition md5_I :: "w32 \<Rightarrow> w32 \<Rightarrow> w32 \<Rightarrow> w32" where
  "md5_I x y z = y XOR (x OR NOT z)"

definition rotl32 :: "w32 \<Rightarrow> nat \<Rightarrow> w32" where
  "rotl32 x n = push_bit n x OR drop_bit (32 - n) x"

fun md5_step ::
  "(w32 \<Rightarrow> w32 \<Rightarrow> w32 \<Rightarrow> w32) \<Rightarrow> w32 list \<Rightarrow> md5_state \<Rightarrow> w32 \<times> nat \<times> nat \<Rightarrow> md5_state" where
  "md5_step f m (a, b, c, d) (k, s, g) = (d, b + rotl32 (a + f b c d + m ! g + k) s, b, c)"

fun le_words :: "byte list \<Rightarrow> w32 list" where
  "le_words (b0 # b1 # b2 # b3 # bs) =
     (ucast b0 OR push_bit 8 (ucast b1) OR push_bit 16 (ucast b2) OR push_bit 24 (ucast b3))
       # le_words bs"
| "le_words bs = []"

definition md5_rounds :: "w32 list \<Rightarrow> md5_state \<Rightarrow> md5_state" where
  "md5_rounds m st =
     foldl (md5_step md5_I m)
       (foldl (md5_step md5_H m)
         (foldl (md5_step md5_G m)
           (foldl (md5_step md5_F m) st md5_round1) md5_round2) md5_round3) md5_round4"

fun md5_add :: "md5_state \<Rightarrow> md5_state \<Rightarrow> md5_state" where
  "md5_add (a0, b0, c0, d0) (a, b, c, d) = (a0 + a, b0 + b, c0 + c, d0 + d)"

definition md5_block :: "md5_state \<Rightarrow> byte list \<Rightarrow> md5_state" where
  "md5_block st blk = md5_add st (md5_rounds (le_words blk) st)"

fun md5_blocks :: "md5_state \<Rightarrow> byte list \<Rightarrow> md5_state" where
  "md5_blocks st [] = st"
| "md5_blocks st (b # bs) = md5_blocks (md5_block st (take 64 (b # bs))) (drop 64 (b # bs))"

definition md5_zeros :: "nat \<Rightarrow> nat" where
  "md5_zeros r = (if r < 56 then 55 - r else 119 - r)"

definition md5_length :: "64 word \<Rightarrow> byte list" where
  "md5_length bits = map (\<lambda>k. ucast (drop_bit k bits)) [0, 8, 16, 24, 32, 40, 48, 56]"

definition md5_pad :: "byte list \<Rightarrow> byte list" where
  "md5_pad bs =
     bs @ [0x80] @ replicate (md5_zeros (length bs mod 64)) 0 @ md5_length (of_nat (8 * length bs))"

definition hex_digit :: "byte \<Rightarrow> char" where
  "hex_digit n = ''0123456789abcdef'' ! unat (n AND 0x0f)"

definition hex_byte :: "byte \<Rightarrow> string" where
  "hex_byte b = [hex_digit (drop_bit 4 b), hex_digit b]"

definition le_bytes :: "w32 \<Rightarrow> byte list" where
  "le_bytes w = map (\<lambda>k. ucast (drop_bit k w)) [0, 8, 16, 24]"

fun md5_digest :: "md5_state \<Rightarrow> string" where
  "md5_digest (a, b, c, d) = concat (map hex_byte (concat (map le_bytes [a, b, c, d])))"

definition md5_hex :: "string \<Rightarrow> string" where
  "md5_hex s =
     md5_digest (md5_blocks (0x67452301, 0xefcdab89, 0x98badcfe, 0x10325476)
       (md5_pad (map of_char s)))"


section \<open>JSON values and the JavaScript runtime\<close>

text \<open>
  The values that cross the webview boundary and that \<^verbatim>\<open>JSON.parse\<close> returns. Strings are
  byte strings (the UTF-8 encoding of the JavaScript string). The number type is a parameter:
  the provider never computes with numbers, it only has them printed.
\<close>

datatype 'n json =
    JNull
  | JBool bool
  | JNum 'n
  | JStr string
  | JArr "'n json list"
  | JObj "(string \<times> 'n json) list"

text \<open>
  The outcome of the guarded compound assignment
  \<^verbatim>\<open>if (state && state.pages && state.pages.length > 0) state.pages[state.currentPage] += debugMsg\<close>:
  the guard was false, the assignment threw, or \<^verbatim>\<open>state.pages\<close> now holds the given value.
\<close>

datatype 'n assign_result = Guard_false | Assign_threw | Assigned "'n json"

text \<open>
  The parts of the JavaScript engine the provider calls. \<open>JSON_parse\<close> is \<^verbatim>\<open>JSON.parse\<close>
  (\<open>None\<close> when it throws a SyntaxError); \<open>JSON_stringify\<close> is
  \<^verbatim>\<open>JSON.stringify(v, null, 2)\<close> on a JSON value; \<open>Number_toString\<close> is the conversion of a
  number to a string; \<open>object_pages_assign\<close> is what the engine does with the guarded compound
  assignment when \<^verbatim>\<open>state.pages\<close> is a plain object (it depends on the properties inherited
  from \<^verbatim>\<open>Object.prototype\<close> and on the coercion of strings to numbers): its arguments are the
  members of \<^verbatim>\<open>state.pages\<close>, the value of \<^verbatim>\<open>state.currentPage\<close> (\<open>None\<close> when undefined)
  and the text appended.
\<close>

record 'n js_runtime =
  JSON_parse :: "string \<Rightarrow> 'n json option"
  JSON_stringify :: "'n json \<Rightarrow> string"
  Number_toString :: "'n \<Rightarrow> string"
  object_pages_assign :: "(string \<times> 'n json) list \<Rightarrow> 'n json option \<Rightarrow> string \<Rightarrow> 'n assign_result"

text \<open>\<^verbatim>\<open>JSON.stringify(value, null, 2)\<close> where \<^verbatim>\<open>value\<close> may be undefined: the result is
  then undefined, not a string.\<close>

definition JSON_stringify_value :: "'n js_runtime \<Rightarrow> 'n json option \<Rightarrow> string option" where
  "JSON_stringify_value rt v = map_option (JSON_stringify rt) v"

fun join_with :: "string \<Rightarrow> string list \<Rightarrow> string" where
  "join_with sep [] = []"
| "join_with sep [x] = x"
| "join_with sep (x # y # ys) = x @ sep @ join_with sep (y # ys)"

text \<open>The string a JSON value is coerced to by \<^verbatim>\<open>+\<close> and by property access: an array is
  joined with commas, with null elements left empty.\<close>

fun js_toString :: "('n \<Rightarrow> string) \<Rightarrow> 'n json \<Rightarrow> string"
  and js_join :: "('n \<Rightarrow> string) \<Rightarrow> 'n json list \<Rightarrow> string list" where
  "js_toString nts JNull = ''null''"
| "js_toString nts (JBool b) = (if b then ''true'' else ''false'')"
| "js_toString nts (JNum n) = nts n"
| "js_toString nts (JStr s) = s"
| "js_toString nts (JArr xs) = join_with '','' (js_join nts xs)"
| "js_toString nts (JObj kvs) = ''[object Object]''"
| "js_join nts [] = []"
| "js_join nts (x # xs) = (if x = JNull then [] else js_toString nts x) # js_join nts xs"

definition is_digit :: "char \<Rightarrow> bool" where
  "is_digit c = (48 \<le> (of_char c :: nat) \<and> (of_char c :: nat) \<le> 57)"

definition digit_val :: "char \<Rightarrow> nat" where
  "digit_val c = of_char c - 48"

definition decimal :: "string \<Rightarrow> nat" where
  "decimal ds = foldl (\<lambda>a c. 10 * a + digit_val c) 0 ds"

text \<open>A property key is an array index when it is the canonical decimal of an integer below
  \<open>2\<^sup>3\<^sup>2 - 1\<close>.\<close>

definition array_index :: "string \<Rightarrow> nat option" where
  "array_index k =
     (case k of
        [] \<Rightarrow> None
      | c # cs \<Rightarrow>
          if list_all is_digit k \<and> (if c = CHR ''0'' then cs = [] else True)
               \<and> decimal k < 4294967295
          then Some (decimal k) else None)"

definition property_key :: "('n \<Rightarrow> string) \<Rightarrow> 'n json option \<Rightarrow> string" where
  "property_key nts v = (case v of None \<Rightarrow> ''undefined'' | Some c \<Rightarrow> js_toString nts c)"

text \<open>
  \<^verbatim>\<open>pages[currentPage] += msg\<close> on an array. An index inside the array replaces the element, one
  beyond it extends the array (the elements skipped are holes, which serialise as null); the
  key \<^verbatim>\<open>length\<close> makes the assignment throw a RangeError; any other key sets a named property
  of the array object, which no serialisation shows.
\<close>

definition array_pages_assign ::
  "('n \<Rightarrow> string) \<Rightarrow> 'n json list \<Rightarrow> 'n json option \<Rightarrow> string \<Rightarrow> 'n assign_result" where
  "array_pages_assign nts ps cur msg =
     (if ps = [] then Guard_false
      else case array_index (property_key nts cur) of
        Some i \<Rightarrow>
          (if i < length ps then Assigned (JArr (ps[i := JStr (js_toString nts (ps ! i) @ msg)]))
           else Assigned (JArr (ps @ replicate (i - length ps) JNull @ [JStr (''undefined'' @ msg)])))
      | None \<Rightarrow> (if property_key nts cur = ''length'' then Assign_threw else Assigned (JArr ps)))"

text \<open>The guard and the assignment on the parsed state. Only an object has a \<^verbatim>\<open>pages\<close>
  property; a non-empty string passes the guard and then rejects the assignment (the code is
  a class body, hence strict); null, booleans and numbers fail the guard.\<close>

definition pages_assign :: "'n js_runtime \<Rightarrow> 'n json \<Rightarrow> string \<Rightarrow> 'n assign_result" where
  "pages_assign rt state msg =
     (case state of
        JObj kvs \<Rightarrow>
          (case map_of kvs ''pages'' of
             None \<Rightarrow> Guard_false
           | Some (JArr ps) \<Rightarrow>
               array_pages_assign (Number_toString rt) ps (map_of kvs ''currentPage'') msg
           | Some (JStr t) \<Rightarrow> (if t = [] then Guard_false else Assign_threw)
           | Some (JObj members) \<Rightarrow>
               object_pages_assign rt members (map_of kvs ''currentPage'') msg
           | Some _ \<Rightarrow> Guard_false)
      | _ \<Rightarrow> Guard_false)"

definition set_pages :: "'n json \<Rightarrow> 'n json \<Rightarrow> 'n json" where
  "set_pages state pages =
     (case state of
        JObj kvs \<Rightarrow> JObj (map (\<lambda>kv. if fst kv = ''pages'' then (fst kv, pages) else kv) kvs)
      | _ \<Rightarrow> state)"

section \<open>Paths and the file system\<close>

text \<open>
  A path is its list of components: \<^verbatim>\<open>path.join(dir, name)\<close> appends a component,
  \<^verbatim>\<open>path.dirname\<close> and \<^verbatim>\<open>path.basename\<close> take it off again. The file name joined is
  \<^verbatim>\<open>notes_<hex digest>.json\<close>, which contains no separator. A directory given as one string
  (the configured vault directory, the home directory) is a single component.
\<close>

type_synonym path = "string list"

definition path_join :: "path \<Rightarrow> string \<Rightarrow> path" where
  "path_join dir name = dir @ [name]"

definition path_dirname :: "path \<Rightarrow> path" where
  "path_dirname p = butlast p"

definition path_basename :: "path \<Rightarrow> string" where
  "path_basename p = last p"

datatype node = File string | Dir

datatype js_error = ENOENT | ENOTDIR | EISDIR | EACCES | TypeError

text \<open>The disk: what exists at each path, and the paths where the operating system refuses
  to create or write (permissions, read-only volume).\<close>

record disk =
  nodes :: "path \<Rightarrow> node option"
  refused :: "path \<Rightarrow> bool"

definition fs_existsSync :: "disk \<Rightarrow> path \<Rightarrow> bool" where
  "fs_existsSync d p = (nodes d p \<noteq> None)"

text \<open>\<^verbatim>\<open>fs.mkdirSync(p, { recursive: true })\<close>: creates the missing directories from the root
  down; a regular file on the way is an error.\<close>

fun mkdirs :: "(path \<Rightarrow> node option) \<Rightarrow> path \<Rightarrow> path \<Rightarrow> js_error + (path \<Rightarrow> node option)" where
  "mkdirs m pre [] = Inr m"
| "mkdirs m pre (c # cs) =
     (case m (pre @ [c]) of
        Some (File x) \<Rightarrow> Inl ENOTDIR
      | Some Dir \<Rightarrow> mkdirs m (pre @ [c]) cs
      | None \<Rightarrow> mkdirs (m(pre @ [c] \<mapsto> Dir)) (pre @ [c]) cs)"

definition fs_mkdirSync :: "disk \<Rightarrow> path \<Rightarrow> js_error + disk" where
  "fs_mkdirSync d p =
     (if refused d p then Inl EACCES
      else case mkdirs (nodes d) [] p of
        Inl e \<Rightarrow> Inl e
      | Inr m \<Rightarrow> Inr (d\<lparr>nodes := m\<rparr>))"

definition fs_readFileSync :: "disk \<Rightarrow> path \<Rightarrow> js_error + string" where
  "fs_readFileSync d p =
     (case nodes d p of
        None \<Rightarrow> Inl ENOENT
      | Some Dir \<Rightarrow> Inl EISDIR
      | Some (File content) \<Rightarrow> Inr content)"

text \<open>\<^verbatim>\<open>fs.writeFileSync(p, data, 'utf8')\<close>. The data argument is validated before the file is
  opened: undefined is rejected with a TypeError (Node 14 and later) and the disk is not
  touched. Otherwise the whole content is replaced, in one step: how the operating system
  interleaves the write with readers in other processes is not part of this model.\<close>

definition fs_writeFileSync :: "disk \<Rightarrow> path \<Rightarrow> string option \<Rightarrow> js_error + disk" where
  "fs_writeFileSync d p data =
     (case data of
        None \<Rightarrow> Inl TypeError
      | Some content \<Rightarrow>
          (case nodes d (path_dirname p) of
             None \<Rightarrow> Inl ENOENT
           | Some (File x) \<Rightarrow> Inl ENOTDIR
           | Some Dir \<Rightarrow>
               if nodes d p = Some Dir then Inl EISDIR
               else if refused d p then Inl EACCES
               else Inr (d\<lparr>nodes := (nodes d)(p \<mapsto> File content)\<rparr>)))"

section \<open>The provider and its environment\<close>

record uri =
  uri_scheme :: string
  uri_authority :: string
  uri_path :: string
  uri_text :: string

text \<open>The variables the debugging callback of \<^verbatim>\<open>_getWorkspaceHash\<close> closes over.\<close>

record debug_task =
  task_uri :: uri
  task_normalizedAuthority :: string
  task_uriString :: string

text \<open>The variables the callback given to \<^verbatim>\<open>fs.watch\<close> closes over.\<close>

record watcher =
  w_dir :: path
  w_fileName :: string
  w_filePath :: path

text \<open>Messages posted to the webview (the presentation layer).\<close>

datatype 'n message = LoadState "'n json option" | InitRequest

text \<open>
  The fields of \<^verbatim>\<open>SidebarMarkdownNotesProvider\<close> the vault code uses
  (\<open>lastSavedStateStr\<close>, \<open>fileWatcher\<close>, \<open>config_vaultPath\<close>), and the environment around it:
  the disk, the home directory, the open workspace folders, the watcher handles that are open
  (each with its callback), the pending timers in the order they were set, and what has been
  observed from outside: the messages posted to the webview, the error messages shown, and the
  exceptions that escaped a handler. \<open>lastSavedStateStr\<close> is \<open>None\<close> when the field holds
  undefined. The handlers are installed after \<^verbatim>\<open>this._view\<close> is assigned and nothing
  clears it, so \<^verbatim>\<open>this._view?.webview.postMessage\<close> always posts.
\<close>

record 'n session =
  the_disk :: disk
  homedir :: string
  workspaceFolders :: "uri list option"
  config_vaultPath :: string
  lastSavedStateStr :: "string option"
  fileWatcher :: "nat option"
  open_watchers :: "(nat \<times> watcher) list"
  next_handle :: nat
  timers :: "debug_task list"
  posted :: "'n message list"
  shown_errors :: "string list"
  uncaught :: "js_error list"

definition postMessage :: "'n message \<Rightarrow> 'n session \<Rightarrow> 'n session" where
  "postMessage m s = s\<lparr>posted := posted s @ [m]\<rparr>"

definition showErrorMessage :: "string \<Rightarrow> 'n session \<Rightarrow> 'n session" where
  "showErrorMessage m s = s\<lparr>shown_errors := shown_errors s @ [m]\<rparr>"

text \<open>An exception that leaves a handler: what the handler did before stays done.\<close>

definition throw :: "js_error \<Rightarrow> 'n session \<Rightarrow> 'n session" where
  "throw e s = s\<lparr>uncaught := uncaught s @ [e]\<rparr>"

subsection \<open>\<^verbatim>\<open>_getWorkspaceHash\<close> and \<^verbatim>\<open>_getVaultDir\<close>\<close>

fun indexOf :: "string \<Rightarrow> char \<Rightarrow> nat option" where
  "indexOf [] c = None"
| "indexOf (x # xs) c = (if x = c then Some 0 else map_option Suc (indexOf xs c))"

definition normalizeAuthority :: "string \<Rightarrow> string" where
  "normalizeAuthority authority =
     (case indexOf authority CHR ''+'' of
        None \<Rightarrow> authority
      | Some plusIndex \<Rightarrow> drop (plusIndex + 1) authority)"

text \<open>Returns the hash; with a workspace folder open it also sets the two-second timer of
  the debugging callback.\<close>

definition getWorkspaceHash :: "'n session \<Rightarrow> string \<times> 'n session" where
  "getWorkspaceHash s =
     (case workspaceFolders s of
        None \<Rightarrow> (md5_hex ''global'', s)
      | Some [] \<Rightarrow> (md5_hex ''global'', s)
      | Some (u # rest) \<Rightarrow>
          (md5_hex (normalizeAuthority (uri_authority u) @ uri_path u),
           s\<lparr>timers := timers s @
              [\<lparr>task_uri = u,
                task_normalizedAuthority = normalizeAuthority (uri_authority u),
                task_uriString = normalizeAuthority (uri_authority u) @ uri_path u\<rparr>]\<rparr>))"

definition getVaultDir :: "'n session \<Rightarrow> path" where
  "getVaultDir s =
     (if config_vaultPath s \<noteq> [] then [config_vaultPath s]
      else path_join [homedir s] ''.sidebar-markdown-notes'')"

definition notesFileName :: "string \<Rightarrow> string" where
  "notesFileName workspaceHash = ''notes_'' @ workspaceHash @ ''.json''"

subsection \<open>\<^verbatim>\<open>_startWatching\<close> and the watcher callback\<close>

definition closeWatcher :: "'n session \<Rightarrow> 'n session" where
  "closeWatcher s =
     (case fileWatcher s of
        None \<Rightarrow> s
      | Some h \<Rightarrow>
          s\<lparr>open_watchers := filter (\<lambda>hw. fst hw \<noteq> h) (open_watchers s), fileWatcher := None\<rparr>)"

text \<open>\<^verbatim>\<open>fs.watch\<close> throws when the directory does not exist; \<^verbatim>\<open>_startWatching\<close> catches it
  and is left without a watcher.\<close>

definition startWatching :: "path \<Rightarrow> 'n session \<Rightarrow> 'n session" where
  "startWatching vaultFilePath s0 =
     (let s = closeWatcher s0 in
      if fs_existsSync (the_disk s) (path_dirname vaultFilePath)
      then s\<lparr>open_watchers := open_watchers s @
                 [(next_handle s,
                   \<lparr>w_dir = path_dirname vaultFilePath,
                    w_fileName = path_basename vaultFilePath,
                    w_filePath = vaultFilePath\<rparr>)],
             fileWatcher := Some (next_handle s),
             next_handle := Suc (next_handle s)\<rparr>
      else s)"

text \<open>The callback of the watcher, called with the file name of the event (null on some
  platforms). The cache is assigned before the content is parsed.\<close>

definition watchCallback ::
  "'n js_runtime \<Rightarrow> watcher \<Rightarrow> string option \<Rightarrow> 'n session \<Rightarrow> 'n session" where
  "watchCallback rt w filename s =
     (if filename = Some (w_fileName w) then
        if fs_existsSync (the_disk s) (w_filePath w) then
          (case fs_readFileSync (the_disk s) (w_filePath w) of
             Inl err \<Rightarrow> s
           | Inr fileData \<Rightarrow>
               if Some fileData \<noteq> lastSavedStateStr s then
                 (case JSON_parse rt fileData of
                    None \<Rightarrow> s\<lparr>lastSavedStateStr := Some fileData\<rparr>
                  | Some state \<Rightarrow>
                      postMessage (LoadState (Some state)) (s\<lparr>lastSavedStateStr := Some fileData\<rparr>))
               else s)
        else s
      else s)"

subsection \<open>The message handlers\<close>

text \<open>The directory check both handlers start with.\<close>

definition ensureVaultDir :: "disk \<Rightarrow> path \<Rightarrow> js_error + disk" where
  "ensureVaultDir d vaultDir = (if fs_existsSync d vaultDir then Inr d else fs_mkdirSync d vaultDir)"

definition parseFailed :: string where
  "parseFailed = ''sidebar-markdown-notes: Failed to parse notes vault file.''"

text \<open>The branch of \<^verbatim>\<open>init\<close> that reads an existing vault file: the cache is assigned
  before the content is parsed, and a failed read or parse is reported.\<close>

definition loadVault :: "'n js_runtime \<Rightarrow> path \<Rightarrow> 'n session \<Rightarrow> 'n session" where
  "loadVault rt vaultFilePath s =
     (case fs_readFileSync (the_disk s) vaultFilePath of
        Inl err \<Rightarrow> showErrorMessage parseFailed s
      | Inr fileData \<Rightarrow>
          (case JSON_parse rt fileData of
             None \<Rightarrow> showErrorMessage parseFailed (s\<lparr>lastSavedStateStr := Some fileData\<rparr>)
           | Some state \<Rightarrow>
               postMessage (LoadState (Some state)) (s\<lparr>lastSavedStateStr := Some fileData\<rparr>)))"

definition handle_init :: "'n js_runtime \<Rightarrow> 'n json option \<Rightarrow> 'n session \<Rightarrow> 'n session" where
  "handle_init rt v s0 =
     (case getWorkspaceHash s0 of
        (workspaceHash, s1) \<Rightarrow>
          (case ensureVaultDir (the_disk s1) (getVaultDir s1) of
             Inl e \<Rightarrow> throw e s1
           | Inr d \<Rightarrow>
               let s2 = s1\<lparr>the_disk := d\<rparr>;
                   vaultFilePath = path_join (getVaultDir s2) (notesFileName workspaceHash)
               in
                 if fs_existsSync (the_disk s2) vaultFilePath
                 then startWatching vaultFilePath (loadVault rt vaultFilePath s2)
                 else
                   let s3 = s2\<lparr>lastSavedStateStr := JSON_stringify_value rt v\<rparr> in
                   (case fs_writeFileSync (the_disk s3) vaultFilePath (lastSavedStateStr s3) of
                      Inl e \<Rightarrow> throw e s3
                    | Inr d' \<Rightarrow>
                        startWatching vaultFilePath
                          (postMessage (LoadState v) (s3\<lparr>the_disk := d'\<rparr>)))))"

definition handle_saveState :: "'n js_runtime \<Rightarrow> 'n json option \<Rightarrow> 'n session \<Rightarrow> 'n session" where
  "handle_saveState rt v s0 =
     (case getWorkspaceHash s0 of
        (workspaceHash, s1) \<Rightarrow>
          (case ensureVaultDir (the_disk s1) (getVaultDir s1) of
             Inl e \<Rightarrow> throw e s1
           | Inr d \<Rightarrow>
               let s2 = s1\<lparr>the_disk := d\<rparr>;
                   vaultFilePath = path_join (getVaultDir s2) (notesFileName workspaceHash);
                   s3 = s2\<lparr>lastSavedStateStr := JSON_stringify_value rt v\<rparr>
               in
                 (case fs_writeFileSync (the_disk s3) vaultFilePath (lastSavedStateStr s3) of
                    Inl e \<Rightarrow> throw e s3
                  | Inr d' \<Rightarrow> s3\<lparr>the_disk := d'\<rparr>)))"

text \<open>The vault file of a session: the path both handlers compute.\<close>

definition vaultFilePath :: "'n session \<Rightarrow> path" where
  "vaultFilePath s = path_join (getVaultDir s) (notesFileName (fst (getWorkspaceHash s)))"

subsection \<open>The debugging callback of \<^verbatim>\<open>_getWorkspaceHash\<close>\<close>

definition debugMsg :: "'n js_runtime \<Rightarrow> debug_task \<Rightarrow> string" where
  "debugMsg rt t =
     [CHR 0x0A, CHR 0x0A] @ ''```json'' @ [CHR 0x0A] @
     JSON_stringify rt
       (JObj [(''toString'', JStr (uri_text (task_uri t))),
              (''scheme'', JStr (uri_scheme (task_uri t))),
              (''authority'', JStr (uri_authority (task_uri t))),
              (''path'', JStr (uri_path (task_uri t))),
              (''normalizedAuthority'', JStr (task_normalizedAuthority t)),
              (''finalUriString'', JStr (task_uriString t))]) @
     [CHR 0x0A] @ ''```''"

text \<open>The whole callback runs inside \<^verbatim>\<open>try { ... } catch (e) {}\<close>: a failed parse, a rejected
  assignment and a failed write all end it silently, the last one after the cache has been
  assigned.\<close>

definition debugCallback :: "'n js_runtime \<Rightarrow> debug_task \<Rightarrow> 'n session \<Rightarrow> 'n session" where
  "debugCallback rt t s =
     (case lastSavedStateStr s of
        None \<Rightarrow> s
      | Some cached \<Rightarrow>
          if cached = [] then s
          else
            let vaultFilePath =
                  path_join (getVaultDir s) (notesFileName (md5_hex (task_uriString t)))
            in
            (case JSON_parse rt cached of
               None \<Rightarrow> s
             | Some state \<Rightarrow>
                 (case pages_assign rt state (debugMsg rt t) of
                    Guard_false \<Rightarrow> s
                  | Assign_threw \<Rightarrow> s
                  | Assigned pages \<Rightarrow>
                      let state' = set_pages state pages;
                          s1 = s\<lparr>lastSavedStateStr := Some (JSON_stringify rt state')\<rparr>
                      in
                      (case fs_writeFileSync (the_disk s1) vaultFilePath (lastSavedStateStr s1) of
                         Inl e \<Rightarrow> s1
                       | Inr d \<Rightarrow>
                           postMessage (LoadState (Some state')) (s1\<lparr>the_disk := d\<rparr>)))))"

section \<open>Events\<close>

text \<open>
  What can happen to a session: a message from the webview (\<^verbatim>\<open>init\<close>, \<^verbatim>\<open>saveState\<close>, or one
  of the types that do not touch the vault), a configuration change (whether it affects this
  extension, and the vault path the new configuration holds), an event of an open watcher, the
  oldest pending timer coming due, and another process writing or removing a file.
\<close>

datatype 'n event =
    Msg_init "'n json option"
  | Msg_saveState "'n json option"
  | Msg_other
  | ConfigChanged bool string
  | WatchEvent nat "string option"
  | TimerDue
  | External_write path string
  | External_remove path

definition onDidChangeConfiguration :: "bool \<Rightarrow> string \<Rightarrow> 'n session \<Rightarrow> 'n session" where
  "onDidChangeConfiguration affects vaultPath s =
     (if affects then postMessage InitRequest (s\<lparr>config_vaultPath := vaultPath\<rparr>) else s)"

definition watchEvent :: "'n js_runtime \<Rightarrow> nat \<Rightarrow> string option \<Rightarrow> 'n session \<Rightarrow> 'n session" where
  "watchEvent rt h filename s =
     (case map_of (open_watchers s) h of
        None \<Rightarrow> s
      | Some w \<Rightarrow> watchCallback rt w filename s)"

definition timerDue :: "'n js_runtime \<Rightarrow> 'n session \<Rightarrow> 'n session" where
  "timerDue rt s =
     (case timers s of
        [] \<Rightarrow> s
      | t # ts \<Rightarrow> debugCallback rt t (s\<lparr>timers := ts\<rparr>))"

definition external_write :: "path \<Rightarrow> string \<Rightarrow> 'n session \<Rightarrow> 'n session" where
  "external_write p content s =
     s\<lparr>the_disk := (the_disk s)\<lparr>nodes := (nodes (the_disk s))(p \<mapsto> File content)\<rparr>\<rparr>"

definition external_remove :: "path \<Rightarrow> 'n session \<Rightarrow> 'n session" where
  "external_remove p s =
     s\<lparr>the_disk := (the_disk s)\<lparr>nodes := (nodes (the_disk s))(p := None)\<rparr>\<rparr>"

fun step :: "'n js_runtime \<Rightarrow> 'n session \<Rightarrow> 'n event \<Rightarrow> 'n session" where
  "step rt s (Msg_init v) = handle_init rt v s"
| "step rt s (Msg_saveState v) = handle_saveState rt v s"
| "step rt s Msg_other = s"
| "step rt s (ConfigChanged affects vaultPath) = onDidChangeConfiguration affects vaultPath s"
| "step rt s (WatchEvent h filename) = watchEvent rt h filename s"
| "step rt s TimerDue = timerDue rt s"
| "step rt s (External_write p content) = external_write p content s"
| "step rt s (External_remove p) = external_remove p s"

definition run :: "'n js_runtime \<Rightarrow> 'n session \<Rightarrow> 'n event list \<Rightarrow> 'n session" where
  "run rt s evs = foldl (step rt) s evs"

text \<open>A provider as constructed: no watcher, the cache the empty string, nothing pending.\<close>

definition new_session :: "disk \<Rightarrow> string \<Rightarrow> uri list option \<Rightarrow> string \<Rightarrow> 'n session" where
  "new_session d home folders vaultPath =
     \<lparr>the_disk = d, homedir = home, workspaceFolders = folders, config_vaultPath = vaultPath,
      lastSavedStateStr = Some [], fileWatcher = None, open_watchers = [], next_handle = 0,
      timers = [], posted = [], shown_errors = [], uncaught = []\<rparr>"

section \<open>A runtime on integer numbers\<close>

text \<open>
  An instance of the runtime, on which the provider is run on concrete inputs. Numbers are
  integers. \<open>parse_json\<close> follows \<^verbatim>\<open>JSON.parse\<close> on the texts whose numbers are integer
  literals, whose strings use no \<^verbatim>\<open>\u\<close> escape and whose object keys are distinct and not
  array indices, and rejects a text that is not JSON; \<open>stringify2\<close> follows
  \<^verbatim>\<open>JSON.stringify(v, null, 2)\<close>. The sessions below keep their pages in an array, so the
  assignment on an object is never consulted.
\<close>

definition dquote :: char where
  "dquote = CHR 0x22"

definition backslash :: char where
  "backslash = CHR 0x5C"

definition newline :: char where
  "newline = CHR 0x0A"

fun show_nat :: "nat \<Rightarrow> string" where
  "show_nat n =
     (if n < 10 then [char_of (48 + n)] else show_nat (n div 10) @ [char_of (48 + n mod 10)])"

declare show_nat.simps [simp del]

definition show_int :: "int \<Rightarrow> string" where
  "show_int i = (if i < 0 then CHR ''-'' # show_nat (nat (- i)) else show_nat (nat i))"

definition hex4 :: "nat \<Rightarrow> string" where
  "hex4 n = ''00'' @ [''0123456789abcdef'' ! (n div 16 mod 16), ''0123456789abcdef'' ! (n mod 16)]"

definition quote_char :: "char \<Rightarrow> string" where
  "quote_char c =
     (if c = dquote then [backslash, dquote]
      else if c = backslash then [backslash, backslash]
      else if c = CHR 0x08 then [backslash, CHR ''b'']
      else if c = CHR 0x0C then [backslash, CHR ''f'']
      else if c = CHR 0x0A then [backslash, CHR ''n'']
      else if c = CHR 0x0D then [backslash, CHR ''r'']
      else if c = CHR 0x09 then [backslash, CHR ''t'']
      else if (of_char c :: nat) < 32 then [backslash, CHR ''u''] @ hex4 (of_char c)
      else [c])"

definition quote :: "string \<Rightarrow> string" where
  "quote s = dquote # concat (map quote_char s) @ [dquote]"

fun stringify_at :: "string \<Rightarrow> int json \<Rightarrow> string"
  and stringify_elements :: "string \<Rightarrow> int json list \<Rightarrow> string list"
  and stringify_members :: "string \<Rightarrow> (string \<times> int json) list \<Rightarrow> string list" where
  "stringify_at ind JNull = ''null''"
| "stringify_at ind (JBool b) = (if b then ''true'' else ''false'')"
| "stringify_at ind (JNum n) = show_int n"
| "stringify_at ind (JStr s) = quote s"
| "stringify_at ind (JArr xs) =
     (if xs = [] then ''[]''
      else ''['' @ [newline] @ ind @ ''  '' @
           join_with ('','' @ [newline] @ ind @ ''  '') (stringify_elements (ind @ ''  '') xs) @
           [newline] @ ind @ '']'')"
| "stringify_at ind (JObj kvs) =
     (if kvs = [] then ''{}''
      else ''{'' @ [newline] @ ind @ ''  '' @
           join_with ('','' @ [newline] @ ind @ ''  '') (stringify_members (ind @ ''  '') kvs) @
           [newline] @ ind @ ''}'')"
| "stringify_elements ind [] = []"
| "stringify_elements ind (x # xs) = stringify_at ind x # stringify_elements ind xs"
| "stringify_members ind [] = []"
| "stringify_members ind ((k, v) # kvs) =
     (quote k @ '': '' @ stringify_at ind v) # stringify_members ind kvs"

definition stringify2 :: "int json \<Rightarrow> string" where
  "stringify2 v = stringify_at [] v"

definition is_ws :: "char \<Rightarrow> bool" where
  "is_ws c = (c = CHR '' '' \<or> c = CHR 0x09 \<or> c = CHR 0x0A \<or> c = CHR 0x0D)"

definition skip_ws :: "string \<Rightarrow> string" where
  "skip_ws s = dropWhile is_ws s"

definition unescape :: "char \<Rightarrow> char option" where
  "unescape c =
     (if c = dquote then Some dquote
      else if c = backslash then Some backslash
      else if c = CHR ''/'' then Some CHR ''/''
      else if c = CHR ''b'' then Some (CHR 0x08)
      else if c = CHR ''f'' then Some (CHR 0x0C)
      else if c = CHR ''n'' then Some (CHR 0x0A)
      else if c = CHR ''r'' then Some (CHR 0x0D)
      else if c = CHR ''t'' then Some (CHR 0x09)
      else None)"

text \<open>The characters of a string after its opening quote: the string read, and the rest of
  the input after the closing quote.\<close>

fun parse_chars :: "string \<Rightarrow> string \<Rightarrow> (string \<times> string) option" where
  "parse_chars acc [] = None"
| "parse_chars acc [c] = (if c = dquote then Some (rev acc, []) else None)"
| "parse_chars acc (c # e # cs) =
     (if c = dquote then Some (rev acc, e # cs)
      else if c = backslash then
        (case unescape e of None \<Rightarrow> None | Some x \<Rightarrow> parse_chars (x # acc) cs)
      else if (of_char c :: nat) < 32 then None
      else parse_chars (c # acc) (e # cs))"

text \<open>An integer literal: an optional minus sign, then \<^verbatim>\<open>0\<close> or digits without a leading zero;
  a fraction or an exponent is outside this instance.\<close>

definition parse_number :: "string \<Rightarrow> (int \<times> string) option" where
  "parse_number s =
     (let neg = (s \<noteq> [] \<and> hd s = CHR ''-'');
          body = (if neg then tl s else s);
          ds = takeWhile is_digit body;
          rest = dropWhile is_digit body
      in if ds = [] then None
         else if hd ds = CHR ''0'' \<and> tl ds \<noteq> [] then None
         else if rest \<noteq> [] \<and> hd rest \<in> set ''.eE'' then None
         else Some (if neg then - int (decimal ds) else int (decimal ds), rest))"

definition expect :: "string \<Rightarrow> string \<Rightarrow> string option" where
  "expect lit s = (if take (length lit) s = lit then Some (drop (length lit) s) else None)"

text \<open>Recursive descent; the first argument bounds the depth of the calls and is taken
  larger than the input is long.\<close>

fun parse_value :: "nat \<Rightarrow> string \<Rightarrow> (int json \<times> string) option"
  and parse_elements :: "nat \<Rightarrow> int json list \<Rightarrow> string \<Rightarrow> (int json list \<times> string) option"
  and parse_members ::
    "nat \<Rightarrow> (string \<times> int json) list \<Rightarrow> string \<Rightarrow> ((string \<times> int json) list \<times> string) option" where
  "parse_value 0 s = None"
| "parse_value (Suc n) s =
     (case skip_ws s of
        [] \<Rightarrow> None
      | c # cs \<Rightarrow>
          if c = CHR ''n'' then map_option (Pair JNull) (expect ''ull'' cs)
          else if c = CHR ''t'' then map_option (Pair (JBool True)) (expect ''rue'' cs)
          else if c = CHR ''f'' then map_option (Pair (JBool False)) (expect ''alse'' cs)
          else if c = dquote then map_option (\<lambda>r. (JStr (fst r), snd r)) (parse_chars [] cs)
          else if c = CHR ''['' then
            (case skip_ws cs of
               [] \<Rightarrow> None
             | d # ds \<Rightarrow>
                 if d = CHR '']'' then Some (JArr [], ds)
                 else map_option (\<lambda>r. (JArr (fst r), snd r)) (parse_elements n [] (d # ds)))
          else if c = CHR ''{'' then
            (case skip_ws cs of
               [] \<Rightarrow> None
             | d # ds \<Rightarrow>
                 if d = CHR ''}'' then Some (JObj [], ds)
                 else map_option (\<lambda>r. (JObj (fst r), snd r)) (parse_members n [] (d # ds)))
          else map_option (\<lambda>r. (JNum (fst r), snd r)) (parse_number (c # cs)))"
| "parse_elements 0 acc s = None"
| "parse_elements (Suc n) acc s =
     (case parse_value n s of
        None \<Rightarrow> None
      | Some (v, rest) \<Rightarrow>
          (case skip_ws rest of
             [] \<Rightarrow> None
           | c # cs \<Rightarrow>
               if c = CHR '','' then parse_elements n (acc @ [v]) cs
               else if c = CHR '']'' then Some (acc @ [v], cs)
               else None))"
| "parse_members 0 acc s = None"
| "parse_members (Suc n) acc s =
     (case skip_ws s of
        [] \<Rightarrow> None
      | q # qs \<Rightarrow>
          if q = dquote then
            (case parse_chars [] qs of
               None \<Rightarrow> None
             | Some (k, rest) \<Rightarrow>
                 (case skip_ws rest of
                    [] \<Rightarrow> None
                  | c # cs \<Rightarrow>
                      if c = CHR '':'' then
                        (case parse_value n cs of
                           None \<Rightarrow> None
                         | Some (v, rest') \<Rightarrow>
                             (case skip_ws rest' of
                                [] \<Rightarrow> None
                              | e # es \<Rightarrow>
                                  if e = CHR '','' then parse_members n (acc @ [(k, v)]) es
                                  else if e = CHR ''}'' then Some (acc @ [(k, v)], es)
                                  else None))
                      else None))
          else None)"

definition parse_json :: "string \<Rightarrow> int json option" where
  "parse_json s =
     (case parse_value (Suc (length s)) s of
        None \<Rightarrow> None
      | Some (v, rest) \<Rightarrow> (if skip_ws rest = [] then Some v else None))"

definition int_runtime :: "int js_runtime" where
  "int_runtime =
     \<lparr>JSON_parse = parse_json, JSON_stringify = stringify2, Number_toString = show_int,
      object_pages_assign = (\<lambda>members cur msg. Guard_false)\<rparr>"

section \<open>The watcher invariant\<close>

text \<open>The watcher handles that are open are exactly the one held in \<open>fileWatcher\<close>, if
  any.\<close>

definition single_watcher :: "'n session \<Rightarrow> bool" where
  "single_watcher s =
     (map fst (open_watchers s) = (case fileWatcher s of None \<Rightarrow> [] | Some h \<Rightarrow> [h]))"

section \<open>Concrete sessions\<close>

text \<open>A home directory that holds the default vault directory, no workspace folder open
  (the identity is the digest of \<^verbatim>\<open>global\<close>) and no vault directory configured.\<close>

definition demo_home :: string where
  "demo_home = ''/home/user''"

definition demo_dir :: path where
  "demo_dir = [demo_home, ''.sidebar-markdown-notes'']"

definition demo_name :: string where
  "demo_name = notesFileName (md5_hex ''global'')"

definition demo_file :: path where
  "demo_file = path_join demo_dir demo_name"

definition demo_disk :: disk where
  "demo_disk = \<lparr>nodes = [[demo_home] \<mapsto> Dir, demo_dir \<mapsto> Dir], refused = (\<lambda>p. False)\<rparr>"

definition demo_session :: "int session" where
  "demo_session = new_session demo_disk demo_home None []"

definition demo_watcher :: watcher where
  "demo_watcher = \<lparr>w_dir = demo_dir, w_fileName = demo_name, w_filePath = demo_file\<rparr>"

text \<open>The same session with the vault file holding \<open>content\<close> and the cache holding
  \<open>cached\<close>.\<close>

definition demo_vault :: "string \<Rightarrow> string \<Rightarrow> int session" where
  "demo_vault content cached =
     demo_session
       \<lparr>the_disk := demo_disk\<lparr>nodes := (nodes demo_disk)(demo_file \<mapsto> File content)\<rparr>,
        lastSavedStateStr := Some cached\<rparr>"

definition demo_notes :: "int json" where
  "demo_notes = JObj [(''pages'', JArr [JStr ''a'']), (''currentPage'', JNum 0)]"

text \<open>A session in a remote workspace with the given authority.\<close>

definition remote_uri :: "string \<Rightarrow> uri" where
  "remote_uri authority =
     \<lparr>uri_scheme = ''vscode-remote'', uri_authority = authority, uri_path = ''/w'',
      uri_text = ''vscode-remote://'' @ authority @ ''/w''\<rparr>"

definition remote_session :: "string \<Rightarrow> int session" where
  "remote_session authority = new_session demo_disk demo_home (Some [remote_uri authority]) []"

text \<open>A session in a remote workspace whose cache holds the serialisation of
  \<open>demo_notes\<close>; the closure of the debugging callback set by \<^verbatim>\<open>_getWorkspaceHash\<close> there; and
  the notes with the diagnostic text appended to the current page.\<close>

definition debug_uri :: uri where
  "debug_uri =
     \<lparr>uri_scheme = ''vscode-remote'', uri_authority = ''ssh-remote+host'', uri_path = ''/w'',
      uri_text = ''vscode-remote://ssh-remote%2Bhost/w''\<rparr>"

definition debug_session :: "int session" where
  "debug_session =
     (new_session demo_disk demo_home (Some [debug_uri]) [])
       \<lparr>lastSavedStateStr := Some (stringify2 demo_notes)\<rparr>"

definition debug_task_demo :: debug_task where
  "debug_task_demo =
     \<lparr>task_uri = debug_uri, task_normalizedAuthority = ''host'', task_uriString = ''host/w''\<rparr>"

definition debug_notes :: "int json" where
  "debug_notes =
     JObj [(''pages'', JArr [JStr (''a'' @ debugMsg int_runtime debug_task_demo)]),
           (''currentPage'', JNum 0)]"

section \<open>Frame lemmas\<close>

text \<open>\<^verbatim>\<open>_getWorkspaceHash\<close> changes nothing but the list of pending timers.\<close>

lemma gwh_fields:
  "the_disk (snd (getWorkspaceHash s)) = the_disk s"
  "homedir (snd (getWorkspaceHash s)) = homedir s"
  "workspaceFolders (snd (getWorkspaceHash s)) = workspaceFolders s"
  "config_vaultPath (snd (getWorkspaceHash s)) = config_vaultPath s"
  "lastSavedStateStr (snd (getWorkspaceHash s)) = lastSavedStateStr s"
  "fileWatcher (snd (getWorkspaceHash s)) = fileWatcher s"
  "open_watchers (snd (getWorkspaceHash s)) = open_watchers s"
  "next_handle (snd (getWorkspaceHash s)) = next_handle s"
  "posted (snd (getWorkspaceHash s)) = posted s"
  "shown_errors (snd (getWorkspaceHash s)) = shown_errors s"
  "uncaught (snd (getWorkspaceHash s)) = uncaught s"
  by (simp_all add: getWorkspaceHash_def split: option.split list.split)

lemma getVaultDir_gwh: "getVaultDir (snd (getWorkspaceHash s)) = getVaultDir s"
  by (simp add: getVaultDir_def gwh_fields)

lemma closeWatcher_fields:
  "the_disk (closeWatcher s) = the_disk s"
  "lastSavedStateStr (closeWatcher s) = lastSavedStateStr s"
  "posted (closeWatcher s) = posted s"
  "shown_errors (closeWatcher s) = shown_errors s"
  "uncaught (closeWatcher s) = uncaught s"
  "timers (closeWatcher s) = timers s"
  "config_vaultPath (closeWatcher s) = config_vaultPath s"
  "homedir (closeWatcher s) = homedir s"
  "workspaceFolders (closeWatcher s) = workspaceFolders s"
  "next_handle (closeWatcher s) = next_handle s"
  by (cases "fileWatcher s"; simp add: closeWatcher_def)+

lemma startWatching_fields:
  "the_disk (startWatching p s) = the_disk s"
  "lastSavedStateStr (startWatching p s) = lastSavedStateStr s"
  "posted (startWatching p s) = posted s"
  "shown_errors (startWatching p s) = shown_errors s"
  "uncaught (startWatching p s) = uncaught s"
  "timers (startWatching p s) = timers s"
  "config_vaultPath (startWatching p s) = config_vaultPath s"
  "homedir (startWatching p s) = homedir s"
  "workspaceFolders (startWatching p s) = workspaceFolders s"
  by (simp_all add: startWatching_def Let_def closeWatcher_fields)

lemma writeFileSync_Inr:
  assumes "fs_writeFileSync d p data = Inr d'"
  shows "\<exists>c. data = Some c \<and> d' = d\<lparr>nodes := (nodes d)(p \<mapsto> File c)\<rparr>
           \<and> nodes d (path_dirname p) = Some Dir \<and> \<not> refused d p"
  using assms
  by (simp add: fs_writeFileSync_def split: option.splits node.splits if_splits)

section \<open>The handlers, case by case\<close>

lemma handle_saveState_unfold:
  "handle_saveState rt v s =
     (case ensureVaultDir (the_disk s) (getVaultDir s) of
        Inl e \<Rightarrow> throw e (snd (getWorkspaceHash s))
      | Inr d \<Rightarrow>
          (case fs_writeFileSync d
                  (vaultFilePath s)
                  (JSON_stringify_value rt v) of
             Inl e \<Rightarrow>
               throw e (snd (getWorkspaceHash s)
                 \<lparr>the_disk := d, lastSavedStateStr := JSON_stringify_value rt v\<rparr>)
           | Inr d' \<Rightarrow>
               snd (getWorkspaceHash s)
                 \<lparr>the_disk := d', lastSavedStateStr := JSON_stringify_value rt v\<rparr>))"
  by (simp add: handle_saveState_def vaultFilePath_def case_prod_beta Let_def gwh_fields
      getVaultDir_gwh getVaultDir_def split: sum.split)

text \<open>A \<^verbatim>\<open>saveState\<close> that returns has written the cache to the vault file.\<close>

lemma handle_saveState_returned:
  assumes "uncaught (handle_saveState rt v s) = uncaught s"
  shows "\<exists>str. fs_readFileSync (the_disk (handle_saveState rt v s))
                 (vaultFilePath s) = Inr str
           \<and> lastSavedStateStr (handle_saveState rt v s) = Some str"
proof (cases "ensureVaultDir (the_disk s) (getVaultDir s)")
  case (Inl e)
  then have "uncaught (handle_saveState rt v s) \<noteq> uncaught s"
    by (simp add: handle_saveState_unfold throw_def gwh_fields)
  with assms show ?thesis by simp
next
  case (Inr d)
  show ?thesis
  proof (cases "fs_writeFileSync d
      (vaultFilePath s)
      (JSON_stringify_value rt v)")
    case (Inl e)
    with Inr have "uncaught (handle_saveState rt v s) \<noteq> uncaught s"
      by (simp add: handle_saveState_unfold throw_def gwh_fields)
    with assms show ?thesis by simp
  next
    case w: (Inr d')
    from writeFileSync_Inr [OF w] obtain c where
      c: "JSON_stringify_value rt v = Some c"
         "d' = d\<lparr>nodes := (nodes d)
            (vaultFilePath s \<mapsto> File c)\<rparr>"
      by blast
    from Inr w show ?thesis
      by (simp add: handle_saveState_unfold c fs_readFileSync_def)
  qed
qed

lemma gwh_fst_cong:
  "workspaceFolders s' = workspaceFolders s \<Longrightarrow> fst (getWorkspaceHash s') = fst (getWorkspaceHash s)"
  by (simp add: getWorkspaceHash_def split: option.split list.split)

lemma vaultFilePath_cong:
  assumes "workspaceFolders s' = workspaceFolders s"
    and "config_vaultPath s' = config_vaultPath s"
    and "homedir s' = homedir s"
  shows "vaultFilePath s' = vaultFilePath s" "getVaultDir s' = getVaultDir s"
  using assms gwh_fst_cong [of s' s] by (simp_all add: vaultFilePath_def getVaultDir_def)

lemma getVaultDir_disk: "getVaultDir (s\<lparr>the_disk := d\<rparr>) = getVaultDir s"
  by (simp add: getVaultDir_def)

lemma gwh_disk_same: "snd (getWorkspaceHash s)\<lparr>the_disk := the_disk s\<rparr> = snd (getWorkspaceHash s)"
proof -
  have "the_disk s = the_disk (snd (getWorkspaceHash s))"
    by (simp add: gwh_fields)
  then show ?thesis by simp
qed

lemma handle_init_existing:
  assumes "fs_existsSync (the_disk s) (getVaultDir s)"
    and "fs_existsSync (the_disk s) (vaultFilePath s)"
  shows "handle_init rt v s =
           startWatching (vaultFilePath s)
             (loadVault rt (vaultFilePath s) (snd (getWorkspaceHash s)))"
  using assms
  by (simp add: handle_init_def vaultFilePath_def case_prod_beta Let_def gwh_fields
      getVaultDir_gwh getVaultDir_disk gwh_disk_same ensureVaultDir_def)

lemma handle_init_fresh:
  assumes "fs_existsSync (the_disk s) (getVaultDir s)"
    and "\<not> fs_existsSync (the_disk s) (vaultFilePath s)"
  shows "handle_init rt v s =
     (case fs_writeFileSync (the_disk s) (vaultFilePath s) (JSON_stringify_value rt v) of
        Inl e \<Rightarrow>
          throw e (snd (getWorkspaceHash s)\<lparr>lastSavedStateStr := JSON_stringify_value rt v\<rparr>)
      | Inr d' \<Rightarrow>
          startWatching (vaultFilePath s)
            (postMessage (LoadState v)
               (snd (getWorkspaceHash s)
                  \<lparr>lastSavedStateStr := JSON_stringify_value rt v, the_disk := d'\<rparr>)))"
  using assms
  by (simp add: handle_init_def vaultFilePath_def case_prod_beta Let_def gwh_fields
      getVaultDir_gwh getVaultDir_disk gwh_disk_same ensureVaultDir_def split: sum.split)

lemma loadVault_fields:
  "the_disk (loadVault rt p s) = the_disk s"
  "uncaught (loadVault rt p s) = uncaught s"
  "config_vaultPath (loadVault rt p s) = config_vaultPath s"
  "homedir (loadVault rt p s) = homedir s"
  "workspaceFolders (loadVault rt p s) = workspaceFolders s"
  by (simp_all add: loadVault_def postMessage_def showErrorMessage_def
      split: sum.split option.split)

lemma mkdirs_longer:
  "mkdirs m pre cs = Inr m' \<Longrightarrow> length pre + length cs < length q \<Longrightarrow> m' q = m q"
proof (induction cs arbitrary: m pre)
  case Nil
  then show ?case by simp
next
  case (Cons c cs)
  then show ?case
    by (auto split: option.splits node.splits)
qed

lemma ensureVaultDir_file:
  assumes "ensureVaultDir d dir = Inr d'"
  shows "nodes d' (path_join dir name) = nodes d (path_join dir name)"
  using assms mkdirs_longer [of "nodes d" "[]" dir _ "path_join dir name"]
  by (auto simp: ensureVaultDir_def fs_mkdirSync_def path_join_def
      split: if_splits sum.splits)

section \<open>Facts about the concrete sessions\<close>

lemma parse_open_brace: "parse_json ''{'' = None"
  by code_simp

lemma parse_spaced_array: "parse_json ''[ ]'' = Some (JArr [])"
  by code_simp

lemma parse_empty_array: "parse_json ''[]'' = Some (JArr [])"
  by code_simp

lemmas demo_defs = demo_vault_def demo_session_def demo_disk_def demo_watcher_def demo_file_def
  demo_dir_def new_session_def path_join_def path_dirname_def path_basename_def

lemma demo_vault_read:
  "fs_readFileSync (the_disk (demo_vault content cached)) (w_filePath demo_watcher) = Inr content"
  by (simp add: demo_defs fs_readFileSync_def)

lemma demo_vault_exists:
  "fs_existsSync (the_disk (demo_vault content cached)) (w_filePath demo_watcher)"
  by (simp add: demo_defs fs_existsSync_def)

lemma demo_vault_cache: "lastSavedStateStr (demo_vault content cached) = Some cached"
  by (simp add: demo_defs)

lemma int_runtime_simps:
  "JSON_parse int_runtime = parse_json"
  "JSON_stringify int_runtime = stringify2"
  "Number_toString int_runtime = show_int"
  by (simp_all add: int_runtime_def)

lemma demo_session_hash: "getWorkspaceHash demo_session = (md5_hex ''global'', demo_session)"
  by (simp add: getWorkspaceHash_def demo_session_def new_session_def)

lemma demo_session_dir: "getVaultDir demo_session = demo_dir"
  by (simp add: getVaultDir_def demo_defs)

lemma demo_session_file: "vaultFilePath demo_session = demo_file"
  by (simp add: vaultFilePath_def demo_session_hash demo_session_dir demo_file_def demo_name_def)

lemma demo_vault_dir: "getVaultDir (demo_vault content cached) = demo_dir"
  by (simp add: getVaultDir_def demo_defs)

lemma demo_vault_file: "vaultFilePath (demo_vault content cached) = demo_file"
proof -
  have "vaultFilePath (demo_vault content cached) = vaultFilePath demo_session"
    by (rule vaultFilePath_cong) (simp_all add: demo_vault_def)
  then show ?thesis by (simp add: demo_session_file)
qed

lemma demo_session_nodes:
  "nodes (the_disk demo_session) demo_dir = Some Dir"
  "nodes (the_disk demo_session) demo_file = None"
  "refused (the_disk demo_session) p = False"
  by (simp_all add: demo_defs)

lemma demo_vault_nodes:
  "nodes (the_disk (demo_vault content cached)) demo_dir = Some Dir"
  "nodes (the_disk (demo_vault content cached)) demo_file = Some (File content)"
  by (simp_all add: demo_defs)

lemma demo_observed:
  "posted demo_session = []" "shown_errors demo_session = []" "uncaught demo_session = []"
  "posted (demo_vault content cached) = []" "shown_errors (demo_vault content cached) = []"
  "uncaught (demo_vault content cached) = []"
  by (simp_all add: demo_defs)

lemma demo_vault_disk:
  "the_disk (demo_vault content cached) =
     (the_disk demo_session)\<lparr>nodes := (nodes (the_disk demo_session))
        (demo_file \<mapsto> File content)\<rparr>"
  by (simp add: demo_vault_def demo_session_def new_session_def)

lemma demo_save:
  "handle_saveState int_runtime (Some v) demo_session =
     demo_vault (stringify2 v) (stringify2 v)"
  unfolding handle_saveState_unfold demo_session_hash demo_session_dir demo_session_file
    fst_conv snd_conv
  by (simp add: ensureVaultDir_def fs_existsSync_def fs_writeFileSync_def
      JSON_stringify_value_def int_runtime_simps demo_defs demo_name_def)

section \<open>Digests and authorities\<close>

text \<open>The digest is computed by rewriting; the padding has to be unfolded to a list.\<close>

lemma replicate_numeral_Cons: "replicate (numeral v) x = x # replicate (numeral v - 1) x"
  by (simp add: numeral_eq_Suc)

lemmas md5_eval = md5_hex_def md5_pad_def md5_zeros_def md5_length_def le_bytes_def hex_byte_def
  hex_digit_def rotl32_def md5_block_def md5_rounds_def
  md5_F_def md5_G_def md5_H_def md5_I_def md5_round1_def md5_round2_def md5_round3_def
  md5_round4_def replicate_numeral_Cons

lemma md5_nested_prefix: "md5_hex ''b+h/w'' = ''e28c57dac7120ae314a4aabd964d550f''"
  by (simp add: md5_eval)

lemma md5_plain: "md5_hex ''h/w'' = ''5e133db272161c4053b98d62fc6498ef''"
  by (simp add: md5_eval)

lemma indexOf_first:
  "c \<notin> set xs \<Longrightarrow> indexOf (xs @ c # ys) c = Some (length xs)"
  by (induction xs) auto

lemma normalizeAuthority_tag:
  "CHR ''+'' \<notin> set x \<Longrightarrow> normalizeAuthority (x @ CHR ''+'' # y) = y"
  by (simp add: normalizeAuthority_def indexOf_first)

lemma remote_session_folders:
  "workspaceFolders (remote_session a) = Some (remote_uri a # [])"
  by (simp add: remote_session_def new_session_def)

lemma remote_session_hash:
  "fst (getWorkspaceHash (remote_session a)) = md5_hex (normalizeAuthority a @ ''/w'')"
  by (simp add: getWorkspaceHash_def remote_session_folders remote_uri_def)


section \<open>Every event keeps the watcher invariant\<close>

lemma single_watcher_cong:
  "open_watchers s' = open_watchers s \<Longrightarrow> fileWatcher s' = fileWatcher s
     \<Longrightarrow> single_watcher s' = single_watcher s"
  by (simp add: single_watcher_def)

lemma closeWatcher_closed:
  "single_watcher s \<Longrightarrow> open_watchers (closeWatcher s) = [] \<and> fileWatcher (closeWatcher s) = None"
  by (cases "fileWatcher s") (auto simp: single_watcher_def closeWatcher_def)

lemma startWatching_only_new:
  assumes "single_watcher s"
  shows "map fst (open_watchers (startWatching p s)) =
           (if fs_existsSync (the_disk s) (path_dirname p) then [next_handle s] else [])"
    and "fileWatcher (startWatching p s) =
           (if fs_existsSync (the_disk s) (path_dirname p) then Some (next_handle s) else None)"
  using closeWatcher_closed [OF assms]
  by (simp_all add: startWatching_def Let_def closeWatcher_fields)

lemma startWatching_single: "single_watcher s \<Longrightarrow> single_watcher (startWatching p s)"
  using startWatching_only_new [of s p] by (simp add: single_watcher_def)

lemma loadVault_watchers:
  "open_watchers (loadVault rt p s) = open_watchers s"
  "fileWatcher (loadVault rt p s) = fileWatcher s"
  by (simp_all add: loadVault_def postMessage_def showErrorMessage_def
      split: sum.split option.split)

lemma watchCallback_watchers:
  "open_watchers (watchCallback rt w f s) = open_watchers s"
  "fileWatcher (watchCallback rt w f s) = fileWatcher s"
  by (simp_all add: watchCallback_def postMessage_def split: sum.split option.split)

lemma watchEvent_watchers:
  "open_watchers (watchEvent rt h f s) = open_watchers s"
  "fileWatcher (watchEvent rt h f s) = fileWatcher s"
  by (simp_all add: watchEvent_def watchCallback_watchers split: option.split)

lemma debugCallback_watchers:
  "open_watchers (debugCallback rt t s) = open_watchers s"
  "fileWatcher (debugCallback rt t s) = fileWatcher s"
  by (simp_all add: debugCallback_def postMessage_def Let_def
      split: sum.split option.split assign_result.split)

lemma handle_saveState_watchers:
  "open_watchers (handle_saveState rt v s) = open_watchers s"
  "fileWatcher (handle_saveState rt v s) = fileWatcher s"
  by (simp_all add: handle_saveState_unfold throw_def gwh_fields split: sum.split)

lemma handle_init_single:
  assumes "single_watcher s"
  shows "single_watcher (handle_init rt v s)"
proof -
  let ?s1 = "snd (getWorkspaceHash s)"
  have s1: "single_watcher ?s1"
    using assms by (simp add: single_watcher_def gwh_fields)
  show ?thesis
  proof (cases "ensureVaultDir (the_disk ?s1) (getVaultDir ?s1)")
    case (Inl e)
    then have "handle_init rt v s = throw e ?s1"
      by (simp add: handle_init_def case_prod_beta)
    with s1 show ?thesis by (simp add: single_watcher_def throw_def)
  next
    case (Inr d)
    let ?s2 = "?s1\<lparr>the_disk := d\<rparr>"
    let ?p = "path_join (getVaultDir ?s2) (notesFileName (fst (getWorkspaceHash s)))"
    let ?s3 = "?s2\<lparr>lastSavedStateStr := JSON_stringify_value rt v\<rparr>"
    have s2: "single_watcher ?s2" "single_watcher ?s3"
      using s1 by (simp_all add: single_watcher_def)
    show ?thesis
    proof (cases "fs_existsSync d ?p")
      case True
      with Inr have "handle_init rt v s = startWatching ?p (loadVault rt ?p ?s2)"
        by (simp add: handle_init_def case_prod_beta Let_def)
      moreover have "single_watcher (loadVault rt ?p ?s2)"
        using s2(1) single_watcher_cong [OF loadVault_watchers, of rt ?p ?s2] by simp
      ultimately show ?thesis by (simp add: startWatching_single)
    next
      case False
      show ?thesis
      proof (cases "fs_writeFileSync d ?p (JSON_stringify_value rt v)")
        case (Inl e)
        with Inr False have "handle_init rt v s = throw e ?s3"
          by (simp add: handle_init_def case_prod_beta Let_def)
        with s2(2) show ?thesis by (simp add: single_watcher_def throw_def)
      next
        case w: (Inr d')
        with Inr False have "handle_init rt v s =
            startWatching ?p (postMessage (LoadState v) (?s3\<lparr>the_disk := d'\<rparr>))"
          by (simp add: handle_init_def case_prod_beta Let_def)
        moreover have "single_watcher (postMessage (LoadState v) (?s3\<lparr>the_disk := d'\<rparr>))"
          using s2(2) by (simp add: single_watcher_def postMessage_def)
        ultimately show ?thesis by (simp add: startWatching_single)
      qed
    qed
  qed
qed

lemma step_single: "single_watcher s \<Longrightarrow> single_watcher (step rt s ev)"
proof (cases ev)
  case (Msg_init v)
  assume "single_watcher s"
  with Msg_init show ?thesis by (simp add: handle_init_single)
next
  case (Msg_saveState v)
  assume "single_watcher s"
  with Msg_saveState show ?thesis
    by (simp add: single_watcher_def handle_saveState_watchers)
next
  case Msg_other
  assume "single_watcher s"
  with Msg_other show ?thesis by simp
next
  case (ConfigChanged affects vaultPath)
  assume "single_watcher s"
  with ConfigChanged show ?thesis
    by (simp add: single_watcher_def onDidChangeConfiguration_def postMessage_def)
next
  case (WatchEvent h filename)
  assume "single_watcher s"
  with WatchEvent show ?thesis
    by (simp add: single_watcher_cong [OF watchEvent_watchers])
next
  case TimerDue
  assume "single_watcher s"
  with TimerDue show ?thesis
    by (simp add: single_watcher_def timerDue_def debugCallback_watchers split: list.split)
next
  case (External_write p content)
  assume "single_watcher s"
  with External_write show ?thesis
    by (simp add: single_watcher_def external_write_def)
next
  case (External_remove p)
  assume "single_watcher s"
  with External_remove show ?thesis
    by (simp add: single_watcher_def external_remove_def)
qed

lemma run_single: "single_watcher s \<Longrightarrow> single_watcher (run rt s evs)"
  unfolding run_def
  by (induction evs arbitrary: s) (simp_all add: step_single)

lemma new_session_single: "single_watcher (new_session d home folders vaultPath)"
  by (simp add: single_watcher_def new_session_def)


section \<open>The debugging callback on the concrete session\<close>

lemma parse_demo_notes: "parse_json (stringify2 demo_notes) = Some demo_notes"
  by code_simp

lemma stringify_demo_notes_nonempty: "stringify2 demo_notes \<noteq> []"
  by code_simp

lemma stringify_debug_notes_differs: "stringify2 debug_notes \<noteq> stringify2 demo_notes"
  by code_simp

lemma debug_session_timer:
  "snd (getWorkspaceHash debug_session) = debug_session\<lparr>timers := [debug_task_demo]\<rparr>"
  by (simp add: getWorkspaceHash_def debug_session_def new_session_def debug_task_demo_def
      debug_uri_def normalizeAuthority_def)

lemma debug_session_file:
  "vaultFilePath debug_session = path_join demo_dir (notesFileName (md5_hex ''host/w''))"
  by (simp add: vaultFilePath_def getVaultDir_def getWorkspaceHash_def debug_session_def
      new_session_def debug_uri_def normalizeAuthority_def demo_dir_def path_join_def)

lemma demo_pages_assign:
  "pages_assign int_runtime demo_notes msg = Assigned (JArr [JStr (''a'' @ msg)])"
  by (simp add: pages_assign_def demo_notes_def array_pages_assign_def property_key_def
      int_runtime_simps show_int_def show_nat.simps array_index_def is_digit_def decimal_def
      digit_val_def)

lemma demo_set_pages:
  "set_pages demo_notes (JArr [JStr (CHR ''a'' # debugMsg int_runtime debug_task_demo)])
     = debug_notes"
  by (simp add: set_pages_def demo_notes_def debug_notes_def)

lemma debug_callback_demo:
  "debugCallback int_runtime debug_task_demo (debug_session\<lparr>timers := []\<rparr>) =
     postMessage (LoadState (Some debug_notes))
       (debug_session
          \<lparr>timers := [],
           lastSavedStateStr := Some (stringify2 debug_notes),
           the_disk := demo_disk\<lparr>nodes := (nodes demo_disk)
              (path_join demo_dir (notesFileName (md5_hex ''host/w'')) \<mapsto>
                 File (stringify2 debug_notes))\<rparr>\<rparr>)"
proof -
  have c: "lastSavedStateStr (debug_session\<lparr>timers := []\<rparr>) = Some (stringify2 demo_notes)"
    and d: "the_disk debug_session = demo_disk"
    and g: "getVaultDir (debug_session\<lparr>timers := []\<rparr>) = demo_dir"
    by (simp_all add: debug_session_def new_session_def getVaultDir_def demo_dir_def
        path_join_def)
  have t: "task_uriString debug_task_demo = ''host/w''"
    by (simp add: debug_task_demo_def)
  have w: "fs_writeFileSync demo_disk (path_join demo_dir (notesFileName (md5_hex ''host/w'')))
      (Some (stringify2 debug_notes)) =
      Inr (demo_disk\<lparr>nodes := (nodes demo_disk)
              (path_join demo_dir (notesFileName (md5_hex ''host/w'')) \<mapsto>
                 File (stringify2 debug_notes))\<rparr>)"
    by (simp add: fs_writeFileSync_def demo_disk_def demo_dir_def path_join_def path_dirname_def)
  show ?thesis
    by (simp add: debugCallback_def c d g t w Let_def int_runtime_simps parse_demo_notes
        stringify_demo_notes_nonempty demo_pages_assign demo_set_pages)
qed


section \<open>Echo suppression\<close>

text \<open>
  Claim C1. A watcher event that finds the vault file holding exactly the string in the cache
  changes nothing: no \<^verbatim>\<open>loadState\<close> is posted and the cache stays as it is. In particular,
  after a \<^verbatim>\<open>saveState\<close> that returned, an event of a watcher on the file just written changes
  nothing.
\<close>

theorem watcher_echo_suppressed:
  "(\<forall>content. fs_readFileSync (the_disk s) (w_filePath w) = Inr content
       \<and> lastSavedStateStr s = Some content
     \<longrightarrow> watchCallback rt w filename s = s)
   \<and> (uncaught (handle_saveState rt v s) = uncaught s
       \<and> w_filePath w = vaultFilePath s
     \<longrightarrow> watchCallback rt w filename (handle_saveState rt v s) = handle_saveState rt v s)"
proof (intro conjI allI impI)
  fix content
  assume "fs_readFileSync (the_disk s) (w_filePath w) = Inr content
            \<and> lastSavedStateStr s = Some content"
  then show "watchCallback rt w filename s = s"
    by (simp add: watchCallback_def)
next
  assume a: "uncaught (handle_saveState rt v s) = uncaught s
     \<and> w_filePath w = vaultFilePath s"
  with handle_saveState_returned [of rt v s] obtain str where
    "fs_readFileSync (the_disk (handle_saveState rt v s)) (w_filePath w) = Inr str"
    "lastSavedStateStr (handle_saveState rt v s) = Some str"
    by auto
  then show "watchCallback rt w filename (handle_saveState rt v s) = handle_saveState rt v s"
    by (simp add: watchCallback_def)
qed

text \<open>
  Claim C1 on the concrete session: an event while file and cache both hold \<^verbatim>\<open>[]\<close>, and an
  event right after saving the notes \<open>demo_notes\<close>.
\<close>

theorem watcher_echo_suppressed_witness:
  "watchCallback int_runtime demo_watcher (Some demo_name) (demo_vault ''[]'' ''[]'')
     = demo_vault ''[]'' ''[]''
   \<and> watchCallback int_runtime demo_watcher (Some demo_name)
       (handle_saveState int_runtime (Some demo_notes) demo_session)
     = handle_saveState int_runtime (Some demo_notes) demo_session"
proof
  show "watchCallback int_runtime demo_watcher (Some demo_name) (demo_vault ''[]'' ''[]'')
     = demo_vault ''[]'' ''[]''"
    using watcher_echo_suppressed [of "demo_vault ''[]'' ''[]''" demo_watcher int_runtime
        "Some demo_name" None]
    by (simp add: demo_vault_read demo_vault_cache)
next
  have "uncaught (handle_saveState int_runtime (Some demo_notes) demo_session)
          = uncaught demo_session"
    by (simp add: demo_save demo_vault_def)
  moreover have "w_filePath demo_watcher =
      vaultFilePath demo_session"
    by (simp add: demo_session_file demo_watcher_def)
  ultimately show "watchCallback int_runtime demo_watcher (Some demo_name)
       (handle_saveState int_runtime (Some demo_notes) demo_session)
     = handle_saveState int_runtime (Some demo_notes) demo_session"
    using watcher_echo_suppressed [of demo_session demo_watcher int_runtime
        "Some demo_name" "Some demo_notes"]
    by simp
qed

section \<open>The side effect of deriving the identity\<close>

text \<open>
  Claim C2 says that deriving the workspace identity has no effect on the stored notes, now
  or later. \<^verbatim>\<open>_getWorkspaceHash\<close> sets a timer whenever a workspace folder is open. In the
  session \<open>debug_session\<close> nothing has been posted and the vault file does not exist; after
  one call of \<^verbatim>\<open>_getWorkspaceHash\<close> and the timer coming due, the webview has been sent the
  notes with the diagnostic text appended to the current page, the vault file holds their
  serialisation, and the cache holds it too and is no longer what it was.
\<close>

theorem workspace_hash_debug_timer:
  "posted debug_session = []
   \<and> \<not> fs_existsSync (the_disk debug_session) (vaultFilePath debug_session)
   \<and> posted (timerDue int_runtime (snd (getWorkspaceHash debug_session)))
       = [LoadState (Some debug_notes)]
   \<and> fs_readFileSync (the_disk (timerDue int_runtime (snd (getWorkspaceHash debug_session))))
         (vaultFilePath debug_session)
       = Inr (stringify2 debug_notes)
   \<and> lastSavedStateStr (timerDue int_runtime (snd (getWorkspaceHash debug_session)))
       = Some (stringify2 debug_notes)
   \<and> lastSavedStateStr (timerDue int_runtime (snd (getWorkspaceHash debug_session)))
       \<noteq> lastSavedStateStr debug_session"
proof -
  have r: "timerDue int_runtime (snd (getWorkspaceHash debug_session)) =
      postMessage (LoadState (Some debug_notes))
       (debug_session
          \<lparr>timers := [],
           lastSavedStateStr := Some (stringify2 debug_notes),
           the_disk := demo_disk\<lparr>nodes := (nodes demo_disk)
              (path_join demo_dir (notesFileName (md5_hex ''host/w'')) \<mapsto>
                 File (stringify2 debug_notes))\<rparr>\<rparr>)"
    by (simp add: timerDue_def debug_session_timer debug_callback_demo)
  have before: "posted debug_session = []" "the_disk debug_session = demo_disk"
    "lastSavedStateStr debug_session = Some (stringify2 demo_notes)"
    by (simp_all add: debug_session_def new_session_def)
  have absent: "nodes demo_disk (path_join demo_dir (notesFileName (md5_hex ''host/w''))) = None"
    by (simp add: demo_disk_def demo_dir_def path_join_def)
  show ?thesis
    unfolding r debug_session_file
    by (simp add: postMessage_def before absent fs_existsSync_def fs_readFileSync_def
        stringify_debug_notes_differs)
qed


section \<open>A watcher event on content that does not parse\<close>

text \<open>
  Claim C3 says that such an event leaves the cache unchanged. It does not: the callback
  assigns the cache before it parses. Here the vault file holds \<^verbatim>\<open>{\<close>, the cache holds
  \<^verbatim>\<open>[]\<close>, and after the event the cache is no longer what it was.
\<close>

theorem watcher_invalid_json_counterexample:
  "JSON_parse int_runtime ''{'' = None
   \<and> fs_readFileSync (the_disk (demo_vault ''{'' ''[]'')) (w_filePath demo_watcher) = Inr ''{''
   \<and> lastSavedStateStr
         (watchCallback int_runtime demo_watcher (Some (w_fileName demo_watcher))
            (demo_vault ''{'' ''[]''))
       \<noteq> lastSavedStateStr (demo_vault ''{'' ''[]'')"
  by (simp add: watchCallback_def demo_vault_read demo_vault_cache demo_vault_exists
      int_runtime_simps parse_open_brace)

text \<open>
  Claim C3, amended. A watcher event on the vault file whose content is not valid JSON returns
  normally, shows no error and posts no \<^verbatim>\<open>loadState\<close>; the disk and every field of the session
  stay as they were, except the cache, which is set to the content read.
\<close>

theorem watcher_invalid_json:
  assumes "filename = Some (w_fileName w)"
    and "fs_readFileSync (the_disk s) (w_filePath w) = Inr content"
    and "JSON_parse rt content = None"
  shows "watchCallback rt w filename s = s\<lparr>lastSavedStateStr := Some content\<rparr>"
  using assms
  by (auto simp: watchCallback_def fs_existsSync_def fs_readFileSync_def
      split: option.splits node.splits)

text \<open>Claim C3, amended, on the session whose vault file holds \<^verbatim>\<open>{\<close>.\<close>

theorem watcher_invalid_json_witness:
  "watchCallback int_runtime demo_watcher (Some (w_fileName demo_watcher)) (demo_vault ''{'' ''[]'')
     = (demo_vault ''{'' ''[]'')\<lparr>lastSavedStateStr := Some ''{''\<rparr>"
  using watcher_invalid_json [of "Some (w_fileName demo_watcher)" demo_watcher
      "demo_vault ''{'' ''[]''" "''{''" int_runtime]
  by (simp add: demo_vault_read int_runtime_simps parse_open_brace)

section \<open>The routing prefix of the authority\<close>

text \<open>
  Claim C4 says that the identity does not depend on what stands before the last \<^verbatim>\<open>+\<close> of
  the authority, also when that prefix contains \<^verbatim>\<open>+\<close> itself. The code cuts at the first
  \<^verbatim>\<open>+\<close>: with the tag \<^verbatim>\<open>a+b\<close> the authority \<^verbatim>\<open>a+b+h\<close> is normalised to \<^verbatim>\<open>b+h\<close>, with the
  tag \<^verbatim>\<open>c\<close> the authority \<^verbatim>\<open>c+h\<close> to \<^verbatim>\<open>h\<close>, and the two digests differ.
\<close>

theorem workspace_hash_prefix_counterexample:
  "fst (getWorkspaceHash (remote_session (''a+b'' @ ''+'' @ ''h'')))
     \<noteq> fst (getWorkspaceHash (remote_session (''c'' @ ''+'' @ ''h'')))"
  by (simp add: remote_session_hash normalizeAuthority_def md5_nested_prefix md5_plain)

text \<open>
  Claim C4, amended. Two sessions whose first workspace folders have the same path and the
  authorities \<open>x+y\<close> and \<open>z+y\<close>, where the tags \<open>x\<close> and \<open>z\<close> contain no \<^verbatim>\<open>+\<close>, have the
  same identity.
\<close>

theorem workspace_hash_prefix_invariant:
  assumes "workspaceFolders s = Some (u # rest)"
    and "workspaceFolders s' = Some (u' # rest')"
    and "uri_authority u = x @ ''+'' @ y"
    and "uri_authority u' = z @ ''+'' @ y"
    and "uri_path u' = uri_path u"
    and "CHR ''+'' \<notin> set x"
    and "CHR ''+'' \<notin> set z"
  shows "fst (getWorkspaceHash s) = fst (getWorkspaceHash s')"
  using assms by (simp add: getWorkspaceHash_def normalizeAuthority_tag)

text \<open>Claim C4, amended, on the tags \<^verbatim>\<open>ssh-remote\<close> and \<^verbatim>\<open>wsl\<close> before the host
  \<^verbatim>\<open>host\<close>.\<close>

theorem workspace_hash_prefix_invariant_witness:
  "fst (getWorkspaceHash (remote_session (''ssh-remote'' @ ''+'' @ ''host'')))
     = fst (getWorkspaceHash (remote_session (''wsl'' @ ''+'' @ ''host'')))"
  using workspace_hash_prefix_invariant [of "remote_session (''ssh-remote'' @ ''+'' @ ''host'')"
      "remote_uri (''ssh-remote'' @ ''+'' @ ''host'')" "[]"
      "remote_session (''wsl'' @ ''+'' @ ''host'')"
      "remote_uri (''wsl'' @ ''+'' @ ''host'')" "[]" "''ssh-remote''" "''host''" "''wsl''"]
  by (simp add: remote_session_folders remote_uri_def)


section \<open>Migration\<close>

text \<open>
  Claim C5. When the vault directory exists, holds no vault file and the write is not
  refused, \<^verbatim>\<open>init\<close> with a legacy state \<open>L\<close> creates the vault file with exactly the
  serialisation of \<open>L\<close> (the rest of the disk is untouched), posts \<^verbatim>\<open>loadState\<close> with \<open>L\<close>, and
  leaves the written string in the cache. A second \<^verbatim>\<open>init\<close>, whatever it carries, finds the file
  and does not write to the disk.
\<close>

theorem init_migrates_legacy_state:
  assumes "nodes (the_disk s) (getVaultDir s) = Some Dir"
    and "nodes (the_disk s) (vaultFilePath s) = None"
    and "\<not> refused (the_disk s) (vaultFilePath s)"
  shows "the_disk (handle_init rt (Some L) s) =
           (the_disk s)\<lparr>nodes := (nodes (the_disk s))
              (vaultFilePath s \<mapsto> File (JSON_stringify rt L))\<rparr>
         \<and> posted (handle_init rt (Some L) s) = posted s @ [LoadState (Some L)]
         \<and> lastSavedStateStr (handle_init rt (Some L) s) = Some (JSON_stringify rt L)
         \<and> the_disk (handle_init rt v (handle_init rt (Some L) s))
             = the_disk (handle_init rt (Some L) s)"
proof -
  let ?p = "vaultFilePath s"
  let ?d = "(the_disk s)\<lparr>nodes := (nodes (the_disk s))(?p \<mapsto> File (JSON_stringify rt L))\<rparr>"
  let ?s1 = "handle_init rt (Some L) s"
  have dir: "path_dirname ?p = getVaultDir s"
    by (simp add: vaultFilePath_def path_join_def path_dirname_def)
  have w: "fs_writeFileSync (the_disk s) ?p (JSON_stringify_value rt (Some L)) = Inr ?d"
    using assms by (simp add: fs_writeFileSync_def JSON_stringify_value_def dir)
  have e: "fs_existsSync (the_disk s) (getVaultDir s)" "\<not> fs_existsSync (the_disk s) ?p"
    using assms by (simp_all add: fs_existsSync_def)
  have s1: "?s1 = startWatching ?p
      (postMessage (LoadState (Some L))
         (snd (getWorkspaceHash s)
            \<lparr>lastSavedStateStr := JSON_stringify_value rt (Some L), the_disk := ?d\<rparr>))"
    using handle_init_fresh [OF e, of rt "Some L"] by (simp add: w)
  have d1: "the_disk ?s1 = ?d"
    and p1: "posted ?s1 = posted s @ [LoadState (Some L)]"
    and c1: "lastSavedStateStr ?s1 = Some (JSON_stringify rt L)"
    and k1: "workspaceFolders ?s1 = workspaceFolders s" "config_vaultPath ?s1 = config_vaultPath s"
        "homedir ?s1 = homedir s"
    by (simp_all add: s1 startWatching_fields postMessage_def gwh_fields JSON_stringify_value_def)
  have same: "vaultFilePath ?s1 = ?p" "getVaultDir ?s1 = getVaultDir s"
    using vaultFilePath_cong [OF k1] by simp_all
  have ne: "getVaultDir s \<noteq> ?p"
    by (simp add: vaultFilePath_def path_join_def)
  have "fs_existsSync (the_disk ?s1) (getVaultDir ?s1)" "fs_existsSync (the_disk ?s1) (vaultFilePath ?s1)"
    using assms(1) ne by (simp_all add: same d1 fs_existsSync_def)
  then have "handle_init rt v ?s1 =
      startWatching (vaultFilePath ?s1)
        (loadVault rt (vaultFilePath ?s1) (snd (getWorkspaceHash ?s1)))"
    by (rule handle_init_existing)
  then have "the_disk (handle_init rt v ?s1) = the_disk ?s1"
    by (simp add: startWatching_fields loadVault_fields gwh_fields)
  with d1 p1 c1 show ?thesis by simp
qed

text \<open>Claim C5 on the concrete session, migrating \<open>demo_notes\<close>.\<close>

theorem init_migrates_legacy_state_witness:
  "the_disk (handle_init int_runtime (Some demo_notes) demo_session)
     = the_disk (demo_vault (stringify2 demo_notes) (stringify2 demo_notes))
   \<and> posted (handle_init int_runtime (Some demo_notes) demo_session)
       = [LoadState (Some demo_notes)]
   \<and> lastSavedStateStr (handle_init int_runtime (Some demo_notes) demo_session)
       = Some (stringify2 demo_notes)
   \<and> the_disk (handle_init int_runtime None
         (handle_init int_runtime (Some demo_notes) demo_session))
       = the_disk (handle_init int_runtime (Some demo_notes) demo_session)"
proof -
  have "nodes (the_disk demo_session) (getVaultDir demo_session) = Some Dir"
    by (simp add: demo_session_dir demo_session_nodes)
  moreover have "nodes (the_disk demo_session) (vaultFilePath demo_session) = None"
    by (simp add: demo_session_file demo_session_nodes)
  moreover have "\<not> refused (the_disk demo_session) (vaultFilePath demo_session)"
    by (simp add: demo_session_nodes)
  ultimately show ?thesis
    using init_migrates_legacy_state [of demo_session int_runtime demo_notes None]
    by (simp add: demo_session_file int_runtime_simps demo_observed demo_vault_disk)
qed

section \<open>\<^verbatim>\<open>init\<close> without a legacy state\<close>

text \<open>
  Claim C6 says that \<^verbatim>\<open>init\<close> without a legacy state, on a vault with no file, migrates an
  empty default state. There is no default: the serialisation of undefined is undefined, and
  the write rejects it. On the concrete session no vault file exists afterwards, nothing has
  been posted, and a TypeError has left the handler.
\<close>

theorem init_without_legacy_state_counterexample:
  "\<not> fs_existsSync (the_disk (handle_init int_runtime None demo_session))
        (vaultFilePath demo_session)
   \<and> posted (handle_init int_runtime None demo_session) = []
   \<and> uncaught (handle_init int_runtime None demo_session) = [TypeError]"
proof -
  have e: "fs_existsSync (the_disk demo_session) (getVaultDir demo_session)"
    "\<not> fs_existsSync (the_disk demo_session) (vaultFilePath demo_session)"
    by (simp_all add: demo_session_dir demo_session_file demo_session_nodes fs_existsSync_def)
  have "handle_init int_runtime None demo_session =
      throw TypeError (demo_session\<lparr>lastSavedStateStr := None\<rparr>)"
    using handle_init_fresh [OF e, of int_runtime None]
    by (simp add: JSON_stringify_value_def fs_writeFileSync_def demo_session_hash)
  then show ?thesis
    using e(2) by (simp add: throw_def demo_observed)
qed

text \<open>
  Claim C6, amended. \<^verbatim>\<open>init\<close> without a legacy state, when no vault file exists, substitutes
  no default state: afterwards there is still no vault file, and nothing has been posted to
  the webview.
\<close>

theorem init_without_legacy_state:
  assumes "\<not> fs_existsSync (the_disk s) (vaultFilePath s)"
  shows "\<not> fs_existsSync (the_disk (handle_init rt None s)) (vaultFilePath s)
         \<and> posted (handle_init rt None s) = posted s"
proof (cases "ensureVaultDir (the_disk s) (getVaultDir s)")
  case (Inl e)
  then have "handle_init rt None s = throw e (snd (getWorkspaceHash s))"
    by (simp add: handle_init_def case_prod_beta gwh_fields getVaultDir_gwh)
  with assms show ?thesis
    by (simp add: throw_def gwh_fields)
next
  case (Inr d)
  from ensureVaultDir_file [OF Inr] assms
  have "\<not> fs_existsSync d (vaultFilePath s)"
    by (simp add: fs_existsSync_def vaultFilePath_def)
  with Inr have "handle_init rt None s =
      throw TypeError (snd (getWorkspaceHash s)\<lparr>the_disk := d, lastSavedStateStr := None\<rparr>)"
    by (simp add: handle_init_def vaultFilePath_def case_prod_beta Let_def gwh_fields
        getVaultDir_gwh getVaultDir_disk JSON_stringify_value_def fs_writeFileSync_def)
  with \<open>\<not> fs_existsSync d (vaultFilePath s)\<close> show ?thesis
    by (simp add: throw_def gwh_fields)
qed

text \<open>Claim C6, amended, on the concrete session.\<close>

theorem init_without_legacy_state_witness:
  "\<not> fs_existsSync (the_disk (handle_init int_runtime None demo_session)) demo_file
   \<and> posted (handle_init int_runtime None demo_session) = []"
proof -
  have "\<not> fs_existsSync (the_disk demo_session) (vaultFilePath demo_session)"
    by (simp add: demo_session_file demo_session_nodes fs_existsSync_def)
  then show ?thesis
    using init_without_legacy_state [of demo_session int_runtime]
    by (simp add: demo_session_file demo_observed)
qed

section \<open>\<^verbatim>\<open>init\<close> on a vault file that does not parse\<close>

text \<open>
  Claim C7. When \<^verbatim>\<open>init\<close> finds a vault file whose content is not valid JSON, the error
  message is shown once, nothing is posted to the webview, and the disk is left as it was: no
  write, no migration, whatever legacy state the message carried. The handler returns.
\<close>

theorem init_unparsable_vault:
  assumes "fs_existsSync (the_disk s) (getVaultDir s)"
    and "fs_readFileSync (the_disk s) (vaultFilePath s) = Inr content"
    and "JSON_parse rt content = None"
  shows "shown_errors (handle_init rt v s) = shown_errors s @ [parseFailed]
         \<and> posted (handle_init rt v s) = posted s
         \<and> the_disk (handle_init rt v s) = the_disk s
         \<and> uncaught (handle_init rt v s) = uncaught s"
proof -
  from assms(2) have "fs_existsSync (the_disk s) (vaultFilePath s)"
    by (simp add: fs_existsSync_def fs_readFileSync_def split: option.splits)
  with assms(1) have "handle_init rt v s =
      startWatching (vaultFilePath s) (loadVault rt (vaultFilePath s) (snd (getWorkspaceHash s)))"
    by (rule handle_init_existing)
  moreover have "loadVault rt (vaultFilePath s) (snd (getWorkspaceHash s)) =
      showErrorMessage parseFailed (snd (getWorkspaceHash s)\<lparr>lastSavedStateStr := Some content\<rparr>)"
    using assms(2,3) by (simp add: loadVault_def gwh_fields)
  ultimately show ?thesis
    by (simp add: startWatching_fields showErrorMessage_def gwh_fields)
qed

text \<open>Claim C7 on the session whose vault file holds \<^verbatim>\<open>{\<close>, with a legacy state supplied.\<close>

theorem init_unparsable_vault_witness:
  "shown_errors (handle_init int_runtime (Some demo_notes) (demo_vault ''{'' ''[]''))
     = [parseFailed]
   \<and> posted (handle_init int_runtime (Some demo_notes) (demo_vault ''{'' ''[]'')) = []
   \<and> the_disk (handle_init int_runtime (Some demo_notes) (demo_vault ''{'' ''[]''))
       = the_disk (demo_vault ''{'' ''[]'')
   \<and> uncaught (handle_init int_runtime (Some demo_notes) (demo_vault ''{'' ''[]'')) = []"
proof -
  have "fs_existsSync (the_disk (demo_vault ''{'' ''[]'')) (getVaultDir (demo_vault ''{'' ''[]''))"
    by (simp add: demo_vault_dir demo_vault_nodes fs_existsSync_def)
  moreover have "fs_readFileSync (the_disk (demo_vault ''{'' ''[]''))
      (vaultFilePath (demo_vault ''{'' ''[]'')) = Inr ''{''"
    by (simp add: demo_vault_file demo_vault_nodes fs_readFileSync_def)
  moreover have "JSON_parse int_runtime ''{'' = None"
    by (simp add: int_runtime_simps parse_open_brace)
  ultimately show ?thesis
    using init_unparsable_vault [of "demo_vault ''{'' ''[]''" "''{''" int_runtime
        "Some demo_notes"]
    by (simp add: demo_observed)
qed

section \<open>One watcher at a time\<close>

text \<open>
  Claim C8. In every state a provider reaches from its construction, by any sequence of
  messages, configuration changes, watcher events, timers and writes of other processes, at
  most one watcher handle is open, and it is the one the provider holds. Starting a watcher in
  such a state leaves only the new handle open (none when \<^verbatim>\<open>fs.watch\<close> fails): the prior one has
  been closed.
\<close>

theorem one_watcher_at_a_time:
  "length (open_watchers (run rt (new_session d home folders vaultPath) evs)) \<le> 1
   \<and> map fst (open_watchers (run rt (new_session d home folders vaultPath) evs))
       = (case fileWatcher (run rt (new_session d home folders vaultPath) evs) of
            None \<Rightarrow> [] | Some h \<Rightarrow> [h])
   \<and> map fst (open_watchers
         (startWatching p (run rt (new_session d home folders vaultPath) evs)))
       = (if fs_existsSync (the_disk (run rt (new_session d home folders vaultPath) evs))
               (path_dirname p)
          then [next_handle (run rt (new_session d home folders vaultPath) evs)] else [])"
proof -
  let ?s = "run rt (new_session d home folders vaultPath) evs"
  have inv: "single_watcher ?s"
    by (rule run_single) (rule new_session_single)
  then have m: "map fst (open_watchers ?s) = (case fileWatcher ?s of None \<Rightarrow> [] | Some h \<Rightarrow> [h])"
    by (simp add: single_watcher_def)
  have "length (map fst (open_watchers ?s)) \<le> 1"
    unfolding m by (simp split: option.split)
  then have "length (open_watchers ?s) \<le> 1" by simp
  with m startWatching_only_new(1) [OF inv, of p] show ?thesis by simp
qed


section \<open>A watcher event on changed content\<close>

text \<open>
  Claim C10. The comparison is between strings. A watcher event on the vault file whose
  content parses and differs, as a string, from the cache posts \<^verbatim>\<open>loadState\<close> with the parsed
  value and sets the cache to the new string, whatever the cached string parses to.
\<close>

theorem watcher_external_change:
  assumes "filename = Some (w_fileName w)"
    and "fs_readFileSync (the_disk s) (w_filePath w) = Inr content"
    and "lastSavedStateStr s \<noteq> Some content"
    and "JSON_parse rt content = Some v"
  shows "watchCallback rt w filename s =
           postMessage (LoadState (Some v)) (s\<lparr>lastSavedStateStr := Some content\<rparr>)"
  using assms
  by (auto simp: watchCallback_def fs_existsSync_def fs_readFileSync_def
      split: option.splits node.splits)

text \<open>
  Claim C10 on a rewrite that changes the formatting only: the cache holds \<^verbatim>\<open>[]\<close>, the file
  \<^verbatim>\<open>[ ]\<close>; both parse to the empty array, and the event still posts it.
\<close>

theorem watcher_external_change_witness:
  "JSON_parse int_runtime ''[]'' = JSON_parse int_runtime ''[ ]''
   \<and> watchCallback int_runtime demo_watcher (Some (w_fileName demo_watcher))
       (demo_vault ''[ ]'' ''[]'')
     = postMessage (LoadState (Some (JArr [])))
         ((demo_vault ''[ ]'' ''[]'')\<lparr>lastSavedStateStr := Some ''[ ]''\<rparr>)"
  using watcher_external_change [of "Some (w_fileName demo_watcher)" demo_watcher
      "demo_vault ''[ ]'' ''[]''" "''[ ]''" int_runtime "JArr []"]
  by (simp add: demo_vault_read demo_vault_cache int_runtime_simps parse_spaced_array
      parse_empty_array)

end
